theory Spec2Isabelle
  imports Main
begin

section \<open>Data model (types.ts)\<close>

text \<open>
  The three declarations of \<^verbatim>\<open>types.ts\<close>. Both interfaces have a field called
  \<^verbatim>\<open>id\<close>; since \<open>id\<close> is the identity function of HOL, the two fields carry the
  name of their interface as a suffix.
\<close>

record Ingredient =
  id_Ingredient :: string
  name :: string
  possibleAlternates :: "string list"

datatype Difficulty = Easy | Medium | Hard

record Recipe =
  id_Recipe :: string
  title :: string
  description :: string
  prepTime :: string
  difficulty :: Difficulty
  ingredientsNeeded :: "string list"
  instructions :: "string list"

datatype AppState = IDLE | ANALYZING | EDITING | GENERATING | RESULTS

section \<open>The component state of App\<close>

text \<open>
  The five \<^verbatim>\<open>useState\<close> cells of the component, in the order of their declaration.
  \<^verbatim>\<open>error\<close> is \<^verbatim>\<open>string | null\<close>, hence an option.
\<close>

record App =
  state :: AppState
  capturedImages :: "string list"
  ingredients :: "Ingredient list"
  recipes :: "Recipe list"
  error :: "string option"

definition initial :: App where
  "initial = \<lparr>state = IDLE, capturedImages = [], ingredients = [], recipes = [], error = None\<rparr>"

section \<open>Promises\<close>

text \<open>
  An awaited promise that settles either yields a value or throws into the enclosing
  \<^verbatim>\<open>catch\<close>.
\<close>

datatype 'a settled = Fulfilled 'a | Rejected

text \<open>
  A promise may also never settle; the code after an \<^verbatim>\<open>await\<close> of it is then never
  run. \<^verbatim>\<open>Promise.all\<close> is rejected when a member is, stays pending when none is
  rejected and some member stays pending, and otherwise yields the values in the order
  of its argument.
\<close>

datatype 'a promise = Pending | Settled "'a settled"

fun promise_all :: "'a promise list \<Rightarrow> 'a list promise" where
  "promise_all [] = Settled (Fulfilled [])"
| "promise_all (Settled Rejected # ps) = Settled Rejected"
| "promise_all (Pending # ps) =
     (case promise_all ps of
        Settled Rejected \<Rightarrow> Settled Rejected
      | Settled (Fulfilled xs) \<Rightarrow> Pending
      | Pending \<Rightarrow> Pending)"
| "promise_all (Settled (Fulfilled x) # ps) =
     (case promise_all ps of
        Settled Rejected \<Rightarrow> Settled Rejected
      | Settled (Fulfilled xs) \<Rightarrow> Settled (Fulfilled (x # xs))
      | Pending \<Rightarrow> Pending)"

text \<open>
  The two functions imported from \<^verbatim>\<open>services/geminiService\<close> are remote calls; the
  handlers below take them as parameters. A handler that awaits one of them reports the
  state that is rendered while the request is outstanding together with the request
  itself (\<open>in_flight\<close>), and the state once the promise has settled (\<open>result\<close>).
\<close>

datatype Request =
  AnalyzeFridgeImageCall "string list"
| GenerateRecipesCall "string list" "string list option"

record Handled =
  in_flight :: "(App \<times> Request) option"
  result :: App

section \<open>Capture: handleFileUpload and removeImage\<close>

text \<open>
  The promise made for one file (lines 23 to 30). Its executor only ever calls
  \<^verbatim>\<open>resolve\<close>, from \<^verbatim>\<open>reader.onload\<close>, with the part of the data URL behind the
  first comma; there is no \<^verbatim>\<open>reject\<close> and no \<^verbatim>\<open>onerror\<close>. \<open>onload\<close> gives that
  string for a file whose read completes and \<open>None\<close> for a file whose read does not,
  in which case the promise stays pending.
\<close>

definition reader :: "('f \<Rightarrow> string option) \<Rightarrow> 'f \<Rightarrow> string promise" where
  "reader onload file =
     (case onload file of Some base64 \<Rightarrow> Settled (Fulfilled base64) | None \<Rightarrow> Pending)"

text \<open>
  \<^verbatim>\<open>files\<close> is \<^verbatim>\<open>FileList | null\<close>. The handler returns early on no files, clears
  the error, and appends every result of \<^verbatim>\<open>Promise.all\<close> to the previous list. It
  reads neither \<^verbatim>\<open>state\<close> nor the length of the list. Its last two statements clear
  the value of the two input elements, which are not part of the component state. The
  value of the function is the component state the call leaves: when
  \<^verbatim>\<open>Promise.all\<close> stays pending the handler stays suspended at its \<^verbatim>\<open>await\<close>, and
  only the cleared error has taken effect.
\<close>

definition handleFileUpload :: "('f \<Rightarrow> string option) \<Rightarrow> 'f list option \<Rightarrow> App \<Rightarrow> App" where
  "handleFileUpload onload files s =
     (case files of
        None \<Rightarrow> s
      | Some fs \<Rightarrow>
          if length fs = 0 then s
          else
            let s1 = s\<lparr>error := None\<rparr>;
                readers = map (reader onload) fs
            in (case promise_all readers of
                  Settled (Fulfilled base64Results) \<Rightarrow>
                    s1\<lparr>capturedImages := capturedImages s1 @ base64Results\<rparr>
                | Settled Rejected \<Rightarrow>
                    s1\<lparr>error := Some ''Failed to process one or more images.''\<rparr>
                | Pending \<Rightarrow> s1))"

text \<open>
  The two capture buttons, the only way to open the file inputs, are rendered inside
  the \<^verbatim>\<open>state === 'IDLE'\<close> block under \<^verbatim>\<open>capturedImages.length < 10\<close> (lines 120 and
  144). The Upload input carries the \<^verbatim>\<open>multiple\<close> attribute (line 189), so one use of
  it can deliver any number of files.
\<close>

definition captureButtonsRendered :: "App \<Rightarrow> bool" where
  "captureButtonsRendered s = (state s = IDLE \<and> length (capturedImages s) < 10)"

text \<open>
  \<^verbatim>\<open>prev.filter((_, i) => i !== index)\<close>: a filter whose predicate sees the position.
  The index is a JavaScript number; the positions it is compared with are the naturals
  below the length, so an integer covers the negative case as well.
\<close>

definition filter_indexed :: "('a \<Rightarrow> nat \<Rightarrow> bool) \<Rightarrow> 'a list \<Rightarrow> 'a list" where
  "filter_indexed p xs = map fst (filter (\<lambda>(x, i). p x i) (zip xs [0..<length xs]))"

definition removeImage :: "int \<Rightarrow> App \<Rightarrow> App" where
  "removeImage index s =
     s\<lparr>capturedImages := filter_indexed (\<lambda>_ i. int i \<noteq> index) (capturedImages s)\<rparr>"

section \<open>Analysis: handleStartAnalysis\<close>

definition handleStartAnalysis :: "(string list \<Rightarrow> Ingredient list settled) \<Rightarrow> App \<Rightarrow> Handled" where
  "handleStartAnalysis analyzeFridgeImage s =
     (if length (capturedImages s) = 0 then \<lparr>in_flight = None, result = s\<rparr>
      else
        let s1 = s\<lparr>state := ANALYZING\<rparr>;
            s2 = s1\<lparr>error := None\<rparr>
        in \<lparr>in_flight = Some (s2, AnalyzeFridgeImageCall (capturedImages s)),
            result =
              (case analyzeFridgeImage (capturedImages s) of
                 Fulfilled detected \<Rightarrow> s2\<lparr>ingredients := detected, state := EDITING\<rparr>
               | Rejected \<Rightarrow>
                   s2\<lparr>error := Some ''Failed to analyze images. Please try again.'',
                      state := IDLE\<rparr>)\<rparr>)"

section \<open>Editing the ingredient list\<close>

definition updateIngredientName :: "string \<Rightarrow> string \<Rightarrow> App \<Rightarrow> App" where
  "updateIngredientName i n s =
     s\<lparr>ingredients :=
         map (\<lambda>ing. if id_Ingredient ing = i then ing\<lparr>name := n\<rparr> else ing) (ingredients s)\<rparr>"

definition swapIngredient :: "string \<Rightarrow> string \<Rightarrow> App \<Rightarrow> App" where
  "swapIngredient i newName s =
     s\<lparr>ingredients :=
         map (\<lambda>ing. if id_Ingredient ing = i then ing\<lparr>name := newName\<rparr> else ing)
           (ingredients s)\<rparr>"

definition removeIngredient :: "string \<Rightarrow> App \<Rightarrow> App" where
  "removeIngredient i s =
     s\<lparr>ingredients := filter (\<lambda>ing. id_Ingredient ing \<noteq> i) (ingredients s)\<rparr>"

section \<open>Recipes: handleGenerateRecipes and handleMoreSuggestions\<close>

text \<open>
  \<^verbatim>\<open>generateRecipes\<close> is called with one argument by the first handler and with two
  by the second; the optional second argument is an option here.
\<close>

definition handleGenerateRecipes ::
  "(string list \<Rightarrow> string list option \<Rightarrow> Recipe list settled) \<Rightarrow> App \<Rightarrow> Handled" where
  "handleGenerateRecipes generateRecipes s =
     (let s1 = s\<lparr>state := GENERATING\<rparr>;
          ingredientNames = map name (ingredients s)
      in \<lparr>in_flight = Some (s1, GenerateRecipesCall ingredientNames None),
          result =
            (case generateRecipes ingredientNames None of
               Fulfilled results \<Rightarrow> s1\<lparr>recipes := results, state := RESULTS\<rparr>
             | Rejected \<Rightarrow>
                 s1\<lparr>error := Some ''Failed to generate recipes.'', state := EDITING\<rparr>)\<rparr>)"

definition handleMoreSuggestions ::
  "(string list \<Rightarrow> string list option \<Rightarrow> Recipe list settled) \<Rightarrow> App \<Rightarrow> Handled" where
  "handleMoreSuggestions generateRecipes s =
     (let s1 = s\<lparr>state := GENERATING\<rparr>;
          ingredientNames = map name (ingredients s);
          existingTitles = map title (recipes s)
      in \<lparr>in_flight = Some (s1, GenerateRecipesCall ingredientNames (Some existingTitles)),
          result =
            (case generateRecipes ingredientNames (Some existingTitles) of
               Fulfilled moreResults \<Rightarrow>
                 s1\<lparr>recipes := recipes s1 @ moreResults, state := RESULTS\<rparr>
             | Rejected \<Rightarrow>
                 s1\<lparr>error := Some ''Failed to get more suggestions.'', state := RESULTS\<rparr>)\<rparr>)"

section \<open>reset\<close>

definition reset :: "App \<Rightarrow> App" where
  "reset s = s\<lparr>ingredients := [], recipes := [], capturedImages := [], state := IDLE\<rparr>"

section \<open>Example data\<close>

text \<open>
  Concrete ingredients, recipes and component states on which the theorems below are
  instantiated.
\<close>

definition exampleMilk :: Ingredient where
  "exampleMilk = \<lparr>id_Ingredient = ''1'', name = ''Milk'', possibleAlternates = [''Cream'']\<rparr>"

definition exampleEggs :: Ingredient where
  "exampleEggs = \<lparr>id_Ingredient = ''2'', name = ''Eggs'', possibleAlternates = []\<rparr>"

definition examplePancakes :: Recipe where
  "examplePancakes = \<lparr>id_Recipe = ''r1'', title = ''Pancakes'', description = ''Fluffy'',
     prepTime = ''20 min'', difficulty = Easy, ingredientsNeeded = [''Milk'', ''Eggs''],
     instructions = [''Mix'', ''Fry'']\<rparr>"

definition exampleOmelette :: Recipe where
  "exampleOmelette = \<lparr>id_Recipe = ''r2'', title = ''Omelette'', description = ''Quick'',
     prepTime = ''10 min'', difficulty = Medium, ingredientsNeeded = [''Eggs''],
     instructions = [''Whisk'', ''Fry'']\<rparr>"

definition exampleEditing :: App where
  "exampleEditing = \<lparr>state = EDITING, capturedImages = [''imgA''],
     ingredients = [exampleMilk, exampleEggs], recipes = [], error = None\<rparr>"

definition exampleResults :: App where
  "exampleResults = \<lparr>state = RESULTS, capturedImages = [''imgA''],
     ingredients = [exampleMilk, exampleEggs], recipes = [examplePancakes], error = None\<rparr>"

section \<open>Auxiliary facts\<close>

text \<open>
  No list of file promises makes \<^verbatim>\<open>Promise.all\<close> reject, so the \<^verbatim>\<open>catch\<close> of
  \<open>handleFileUpload\<close> is never entered; when every file is read, the results are the
  payloads in the order of the files.
\<close>

lemma promise_all_readers_not_rejected:
  "promise_all (map (reader onload) fs) \<noteq> Settled Rejected"
  by (induction fs) (auto simp add: reader_def split: option.splits promise.splits settled.splits)

lemma promise_all_loaded:
  "promise_all (map (reader Some) fs) = Settled (Fulfilled fs)"
  by (induction fs) (simp_all add: reader_def)

lemma filter_zip_upt_shift:
  "map fst (filter (\<lambda>(x, i). int i \<noteq> int k + j) (zip xs [k..<k + length xs])) =
     (if 0 \<le> j \<and> j < int (length xs) then take (nat j) xs @ drop (Suc (nat j)) xs else xs)"
proof (induction xs arbitrary: k j)
  case Nil
  then show ?case by simp
next
  case (Cons x xs)
  have upt: "[k..<k + length (x # xs)] = k # [Suc k..<Suc k + length xs]"
    by (simp add: upt_rec)
  have ih: "map fst (filter (\<lambda>(y, i). int i \<noteq> int (Suc k) + (j - 1)) (zip xs [Suc k..<Suc k + length xs])) =
     (if 0 \<le> j - 1 \<and> j - 1 < int (length xs)
      then take (nat (j - 1)) xs @ drop (Suc (nat (j - 1))) xs else xs)"
    by (rule Cons.IH)
  have shift: "int (Suc k) + (j - 1) = int k + j" by simp
  show ?case
  proof (cases "j = 0")
    case True
    with ih shift show ?thesis unfolding upt by simp
  next
    case False
    show ?thesis
    proof (cases "0 < j")
      case True
      then have n: "nat j = Suc (nat (j - 1))" by arith
      from True ih shift show ?thesis unfolding upt n by auto
    next
      case neg: False
      with False have "j < 0" by simp
      with ih shift show ?thesis unfolding upt by simp
    qed
  qed
qed

lemma filter_indexed_remove:
  "filter_indexed (\<lambda>_ i. int i \<noteq> j) xs =
     (if 0 \<le> j \<and> j < int (length xs) then take (nat j) xs @ drop (Suc (nat j)) xs else xs)"
  using filter_zip_upt_shift [of 0 j xs] by (simp add: filter_indexed_def)

lemma map_rename_absent:
  "i \<notin> id_Ingredient ` set xs \<Longrightarrow>
   map (\<lambda>ing. if id_Ingredient ing = i then ing\<lparr>name := n\<rparr> else ing) xs = xs"
  by (induction xs) auto

lemma filter_absent:
  "i \<notin> id_Ingredient ` set xs \<Longrightarrow> filter (\<lambda>ing. id_Ingredient ing \<noteq> i) xs = xs"
  by (induction xs) auto

lemma map_rename_ids:
  "map id_Ingredient (map (\<lambda>ing. if id_Ingredient ing = i then ing\<lparr>name := n\<rparr> else ing) xs) =
     map id_Ingredient xs"
  by (induction xs) auto

lemma map_rename_alternates:
  "map possibleAlternates
     (map (\<lambda>ing. if id_Ingredient ing = i then ing\<lparr>name := n\<rparr> else ing) xs) =
     map possibleAlternates xs"
  by (induction xs) auto

section \<open>Capture list (C1)\<close>

text \<open>
  Claim C1 says that the captured-images list never exceeds 10 entries. The render
  guard \<^verbatim>\<open>capturedImages.length < 10\<close> is the code's own attempt at that cap, but
  \<open>handleFileUpload\<close> appends whatever one use of the Upload input delivers: from the
  first state of the component, which is \<open>IDLE\<close> with an empty list and the capture
  buttons rendered, one upload of eleven files, all of them read, leaves the state
  \<open>IDLE\<close> and the list with those eleven entries in their order.
\<close>

theorem upload_exceeds_cap:
  "state initial = IDLE \<and> captureButtonsRendered initial \<and>
   state (handleFileUpload Some
     (Some [''a1'', ''a2'', ''a3'', ''a4'', ''a5'', ''a6'', ''a7'', ''a8'', ''a9'', ''a10'', ''a11''])
     initial) = IDLE \<and>
   capturedImages (handleFileUpload Some
     (Some [''a1'', ''a2'', ''a3'', ''a4'', ''a5'', ''a6'', ''a7'', ''a8'', ''a9'', ''a10'', ''a11''])
     initial) =
     [''a1'', ''a2'', ''a3'', ''a4'', ''a5'', ''a6'', ''a7'', ''a8'', ''a9'', ''a10'', ''a11''] \<and>
   length (capturedImages (handleFileUpload Some
     (Some [''a1'', ''a2'', ''a3'', ''a4'', ''a5'', ''a6'', ''a7'', ''a8'', ''a9'', ''a10'', ''a11''])
     initial)) = 11"
  by (simp add: initial_def captureButtonsRendered_def handleFileUpload_def reader_def)

section \<open>Analysis (C2, C3, C8)\<close>

text \<open>
  Claim C2. When \<open>handleStartAnalysis\<close> runs on a non-empty capture list and the
  service call is fulfilled with a list \<open>L\<close>, the final state is \<open>EDITING\<close> and the
  ingredient list is \<open>L\<close>; while the call is outstanding the component shows
  \<open>ANALYZING\<close> with the error cleared, and the service has been given all captured
  images.
\<close>

theorem startAnalysis_success:
  assumes "capturedImages s \<noteq> []"
    and "analyzeFridgeImage (capturedImages s) = Fulfilled L"
  shows "state (result (handleStartAnalysis analyzeFridgeImage s)) = EDITING \<and>
         ingredients (result (handleStartAnalysis analyzeFridgeImage s)) = L \<and>
         in_flight (handleStartAnalysis analyzeFridgeImage s) =
           Some (s\<lparr>state := ANALYZING, error := None\<rparr>, AnalyzeFridgeImageCall (capturedImages s))"
  using assms by (simp add: handleStartAnalysis_def Let_def)

text \<open>
  The example of the specification: capture list \<open>[imgA]\<close>, a service answering with
  the single ingredient Milk.
\<close>

theorem startAnalysis_success_witness:
  "capturedImages (initial\<lparr>capturedImages := [''imgA'']\<rparr>) \<noteq> [] \<and>
   state (result (handleStartAnalysis (\<lambda>imgs. Fulfilled [exampleMilk])
       (initial\<lparr>capturedImages := [''imgA'']\<rparr>))) = EDITING \<and>
   ingredients (result (handleStartAnalysis (\<lambda>imgs. Fulfilled [exampleMilk])
       (initial\<lparr>capturedImages := [''imgA'']\<rparr>))) =
     [\<lparr>id_Ingredient = ''1'', name = ''Milk'', possibleAlternates = [''Cream'']\<rparr>]"
proof -
  have ne: "capturedImages (initial\<lparr>capturedImages := [''imgA'']\<rparr>) \<noteq> []" by simp
  have ok: "(\<lambda>imgs. Fulfilled [exampleMilk]) (capturedImages (initial\<lparr>capturedImages := [''imgA'']\<rparr>))
              = Fulfilled [exampleMilk]" by simp
  show ?thesis
    using ne startAnalysis_success [OF ne ok] by (simp add: exampleMilk_def)
qed

text \<open>
  Claim C3. When \<open>handleStartAnalysis\<close> runs on a non-empty capture list and the
  service call is rejected, the final state is \<open>IDLE\<close>, the capture list is the one
  before the call, and the error is the fixed analysis message.
\<close>

theorem startAnalysis_failure:
  assumes "capturedImages s \<noteq> []"
    and "analyzeFridgeImage (capturedImages s) = Rejected"
  shows "state (result (handleStartAnalysis analyzeFridgeImage s)) = IDLE \<and>
         capturedImages (result (handleStartAnalysis analyzeFridgeImage s)) = capturedImages s \<and>
         error (result (handleStartAnalysis analyzeFridgeImage s)) =
           Some ''Failed to analyze images. Please try again.''"
  using assms by (simp add: handleStartAnalysis_def Let_def)

theorem startAnalysis_failure_witness:
  "capturedImages (initial\<lparr>capturedImages := [''imgA'']\<rparr>) \<noteq> [] \<and>
   state (result (handleStartAnalysis (\<lambda>imgs. Rejected)
       (initial\<lparr>capturedImages := [''imgA'']\<rparr>))) = IDLE \<and>
   capturedImages (result (handleStartAnalysis (\<lambda>imgs. Rejected)
       (initial\<lparr>capturedImages := [''imgA'']\<rparr>))) = [''imgA''] \<and>
   error (result (handleStartAnalysis (\<lambda>imgs. Rejected)
       (initial\<lparr>capturedImages := [''imgA'']\<rparr>))) =
     Some ''Failed to analyze images. Please try again.''"
proof -
  have ne: "capturedImages (initial\<lparr>capturedImages := [''imgA'']\<rparr>) \<noteq> []" by simp
  have ko: "(\<lambda>imgs. Rejected :: Ingredient list settled)
              (capturedImages (initial\<lparr>capturedImages := [''imgA'']\<rparr>)) = Rejected" by simp
  show ?thesis
    using ne startAnalysis_failure [OF ne ko] by simp
qed

text \<open>
  Claim C8. With an empty capture list \<open>handleStartAnalysis\<close> returns at once: no
  request is issued, no intermediate state is shown, and the component state, all five
  cells of it, is the one before the call.
\<close>

theorem startAnalysis_empty_noop:
  assumes "capturedImages s = []"
  shows "handleStartAnalysis analyzeFridgeImage s = \<lparr>in_flight = None, result = s\<rparr>"
  using assms by (simp add: handleStartAnalysis_def)

theorem startAnalysis_empty_noop_witness:
  "capturedImages initial = [] \<and> state initial = IDLE \<and>
   in_flight (handleStartAnalysis (\<lambda>imgs. Rejected) initial) = None \<and>
   result (handleStartAnalysis (\<lambda>imgs. Rejected) initial) = initial"
proof -
  have e: "capturedImages initial = []" by (simp add: initial_def)
  show ?thesis
    using e startAnalysis_empty_noop [OF e, of "\<lambda>imgs. Rejected"] by (simp add: initial_def)
qed

section \<open>Recipes (C4, C5)\<close>

text \<open>
  Claim C4. \<open>handleGenerateRecipes\<close> shows \<open>GENERATING\<close> while it calls the service
  with the names of the current ingredients and no exclusion list. If the call is
  fulfilled with \<open>R\<close>, the recipe list becomes \<open>R\<close> and the state \<open>RESULTS\<close>; if it
  is rejected, the error is set and the state is \<open>EDITING\<close>. In no case is the final
  state \<open>GENERATING\<close>.
\<close>

theorem generateRecipes_outcomes:
  "in_flight (handleGenerateRecipes gen s) =
     Some (s\<lparr>state := GENERATING\<rparr>, GenerateRecipesCall (map name (ingredients s)) None) \<and>
   (\<forall>R. gen (map name (ingredients s)) None = Fulfilled R \<longrightarrow>
      recipes (result (handleGenerateRecipes gen s)) = R \<and>
      state (result (handleGenerateRecipes gen s)) = RESULTS) \<and>
   (gen (map name (ingredients s)) None = Rejected \<longrightarrow>
      error (result (handleGenerateRecipes gen s)) = Some ''Failed to generate recipes.'' \<and>
      state (result (handleGenerateRecipes gen s)) = EDITING) \<and>
   state (result (handleGenerateRecipes gen s)) \<noteq> GENERATING"
  by (cases "gen (map name (ingredients s)) None")
     (simp_all add: handleGenerateRecipes_def Let_def)

theorem generateRecipes_outcomes_witness:
  "state exampleEditing = EDITING \<and>
   in_flight (handleGenerateRecipes (\<lambda>ns ex. Fulfilled [examplePancakes]) exampleEditing) =
     Some (exampleEditing\<lparr>state := GENERATING\<rparr>, GenerateRecipesCall [''Milk'', ''Eggs''] None) \<and>
   recipes (result (handleGenerateRecipes (\<lambda>ns ex. Fulfilled [examplePancakes]) exampleEditing)) =
     [examplePancakes] \<and>
   state (result (handleGenerateRecipes (\<lambda>ns ex. Fulfilled [examplePancakes]) exampleEditing)) =
     RESULTS \<and>
   error (result (handleGenerateRecipes (\<lambda>ns ex. Rejected) exampleEditing)) =
     Some ''Failed to generate recipes.'' \<and>
   state (result (handleGenerateRecipes (\<lambda>ns ex. Rejected) exampleEditing)) = EDITING"
  using generateRecipes_outcomes [of "\<lambda>ns ex. Fulfilled [examplePancakes]" exampleEditing]
    generateRecipes_outcomes [of "\<lambda>ns ex. Rejected" exampleEditing]
  by (simp add: exampleEditing_def exampleMilk_def exampleEggs_def)

text \<open>
  Claim C5. \<open>handleMoreSuggestions\<close> calls the service with the names of the current
  ingredients and the titles of the recipes already shown. If the call is fulfilled with
  \<open>R\<close>, the recipe list becomes the previous list followed by \<open>R\<close>; if it is
  rejected, the error is set and the recipe list is the previous one. The final state is
  \<open>RESULTS\<close> in both cases.
\<close>

theorem moreSuggestions_outcomes:
  "in_flight (handleMoreSuggestions gen s) =
     Some (s\<lparr>state := GENERATING\<rparr>,
           GenerateRecipesCall (map name (ingredients s)) (Some (map title (recipes s)))) \<and>
   (\<forall>R. gen (map name (ingredients s)) (Some (map title (recipes s))) = Fulfilled R \<longrightarrow>
      recipes (result (handleMoreSuggestions gen s)) = recipes s @ R \<and>
      state (result (handleMoreSuggestions gen s)) = RESULTS) \<and>
   (gen (map name (ingredients s)) (Some (map title (recipes s))) = Rejected \<longrightarrow>
      error (result (handleMoreSuggestions gen s)) = Some ''Failed to get more suggestions.'' \<and>
      recipes (result (handleMoreSuggestions gen s)) = recipes s \<and>
      state (result (handleMoreSuggestions gen s)) = RESULTS)"
  by (cases "gen (map name (ingredients s)) (Some (map title (recipes s)))")
     (simp_all add: handleMoreSuggestions_def Let_def)

theorem moreSuggestions_outcomes_witness:
  "state exampleResults = RESULTS \<and>
   in_flight (handleMoreSuggestions (\<lambda>ns ex. Fulfilled [exampleOmelette]) exampleResults) =
     Some (exampleResults\<lparr>state := GENERATING\<rparr>,
           GenerateRecipesCall [''Milk'', ''Eggs''] (Some [''Pancakes''])) \<and>
   recipes (result (handleMoreSuggestions (\<lambda>ns ex. Fulfilled [exampleOmelette]) exampleResults)) =
     [examplePancakes, exampleOmelette] \<and>
   state (result (handleMoreSuggestions (\<lambda>ns ex. Fulfilled [exampleOmelette]) exampleResults)) =
     RESULTS \<and>
   error (result (handleMoreSuggestions (\<lambda>ns ex. Rejected) exampleResults)) =
     Some ''Failed to get more suggestions.'' \<and>
   recipes (result (handleMoreSuggestions (\<lambda>ns ex. Rejected) exampleResults)) =
     [examplePancakes] \<and>
   state (result (handleMoreSuggestions (\<lambda>ns ex. Rejected) exampleResults)) = RESULTS"
  using moreSuggestions_outcomes [of "\<lambda>ns ex. Fulfilled [exampleOmelette]" exampleResults]
    moreSuggestions_outcomes [of "\<lambda>ns ex. Rejected" exampleResults]
  by (simp add: exampleResults_def exampleMilk_def exampleEggs_def examplePancakes_def)

section \<open>Ingredient edits (C6, C9, C10)\<close>

text \<open>
  Claim C6. \<open>swapIngredient i alt\<close> keeps the length and the order of the ingredient
  list; at every position, an ingredient whose identifier is \<open>i\<close> becomes the same
  ingredient with name \<open>alt\<close>, and an ingredient with any other identifier is the
  one that was there.
\<close>

theorem swapIngredient_frame:
  "length (ingredients (swapIngredient i alt s)) = length (ingredients s) \<and>
   (\<forall>k < length (ingredients s).
      (id_Ingredient (ingredients s ! k) = i \<longrightarrow>
         ingredients (swapIngredient i alt s) ! k = (ingredients s ! k)\<lparr>name := alt\<rparr>) \<and>
      (id_Ingredient (ingredients s ! k) \<noteq> i \<longrightarrow>
         ingredients (swapIngredient i alt s) ! k = ingredients s ! k))"
  by (simp add: swapIngredient_def)

theorem swapIngredient_frame_witness:
  "length (ingredients (swapIngredient ''1'' ''Cream'' exampleEditing)) = 2 \<and>
   ingredients (swapIngredient ''1'' ''Cream'' exampleEditing) ! 0 =
     exampleMilk\<lparr>name := ''Cream''\<rparr> \<and>
   ingredients (swapIngredient ''1'' ''Cream'' exampleEditing) ! 1 = exampleEggs"
proof -
  let ?new = "ingredients (swapIngredient ''1'' ''Cream'' exampleEditing)"
  note fr = swapIngredient_frame [of "''1''" "''Cream''" exampleEditing]
  have len: "length ?new = 2"
    using fr by (simp add: exampleEditing_def)
  have "(0::nat) < length (ingredients exampleEditing)"
    and "id_Ingredient (ingredients exampleEditing ! 0) = ''1''"
    by (simp_all add: exampleEditing_def exampleMilk_def)
  with fr have "?new ! 0 = (ingredients exampleEditing ! 0)\<lparr>name := ''Cream''\<rparr>"
    by blast
  then have n0: "?new ! 0 = exampleMilk\<lparr>name := ''Cream''\<rparr>"
    by (simp add: exampleEditing_def)
  have "(1::nat) < length (ingredients exampleEditing)"
    and "id_Ingredient (ingredients exampleEditing ! 1) \<noteq> ''1''"
    by (simp_all add: exampleEditing_def exampleEggs_def)
  with fr have "?new ! 1 = ingredients exampleEditing ! 1"
    by blast
  then have n1: "?new ! 1 = exampleEggs"
    by (simp add: exampleEditing_def)
  from len n0 n1 show ?thesis by blast
qed

text \<open>
  Claim C9. \<open>swapIngredient\<close> and \<open>updateIngredientName\<close> leave the identifier and
  the alternates of every ingredient, the target included, as they were. In particular
  an alternate accepted for an ingredient is its name afterwards and is still among its
  alternates.
\<close>

theorem rename_keeps_id_and_alternates:
  "map id_Ingredient (ingredients (swapIngredient i alt s)) = map id_Ingredient (ingredients s) \<and>
   map possibleAlternates (ingredients (swapIngredient i alt s)) =
     map possibleAlternates (ingredients s) \<and>
   map id_Ingredient (ingredients (updateIngredientName i n s)) =
     map id_Ingredient (ingredients s) \<and>
   map possibleAlternates (ingredients (updateIngredientName i n s)) =
     map possibleAlternates (ingredients s) \<and>
   (\<forall>k < length (ingredients s).
      id_Ingredient (ingredients s ! k) = i \<and> alt \<in> set (possibleAlternates (ingredients s ! k)) \<longrightarrow>
        name (ingredients (swapIngredient i alt s) ! k) = alt \<and>
        alt \<in> set (possibleAlternates (ingredients (swapIngredient i alt s) ! k)))"
  by (simp add: swapIngredient_def updateIngredientName_def map_rename_ids map_rename_alternates
      del: map_map)

theorem rename_keeps_id_and_alternates_witness:
  "id_Ingredient (ingredients exampleEditing ! 0) = ''1'' \<and>
   ''Cream'' \<in> set (possibleAlternates (ingredients exampleEditing ! 0)) \<and>
   name (ingredients (swapIngredient ''1'' ''Cream'' exampleEditing) ! 0) = ''Cream'' \<and>
   ''Cream'' \<in> set (possibleAlternates (ingredients (swapIngredient ''1'' ''Cream'' exampleEditing) ! 0)) \<and>
   map id_Ingredient (ingredients (updateIngredientName ''1'' ''Oat milk'' exampleEditing)) =
     [''1'', ''2''] \<and>
   map possibleAlternates (ingredients (updateIngredientName ''1'' ''Oat milk'' exampleEditing)) =
     [[''Cream''], []]"
proof -
  note kp = rename_keeps_id_and_alternates [of "''1''" "''Cream''" exampleEditing "''Oat milk''"]
  have h: "(0::nat) < length (ingredients exampleEditing)"
    "id_Ingredient (ingredients exampleEditing ! 0) = ''1''"
    "''Cream'' \<in> set (possibleAlternates (ingredients exampleEditing ! 0))"
    by (simp_all add: exampleEditing_def exampleMilk_def)
  with kp have "name (ingredients (swapIngredient ''1'' ''Cream'' exampleEditing) ! 0) = ''Cream'' \<and>
     ''Cream'' \<in> set (possibleAlternates (ingredients (swapIngredient ''1'' ''Cream'' exampleEditing) ! 0))"
    by blast
  moreover from kp have
    "map id_Ingredient (ingredients (updateIngredientName ''1'' ''Oat milk'' exampleEditing)) =
       [''1'', ''2'']"
    "map possibleAlternates (ingredients (updateIngredientName ''1'' ''Oat milk'' exampleEditing)) =
       [[''Cream''], []]"
    by (simp_all add: exampleEditing_def exampleMilk_def exampleEggs_def)
  ultimately show ?thesis using h by simp
qed

text \<open>
  Claim C10. \<open>removeImage\<close> with an index below zero or not below the length of the
  capture list, and \<open>updateIngredientName\<close>, \<open>swapIngredient\<close> and
  \<open>removeIngredient\<close> with an identifier that no ingredient carries, return the
  component state they were given: no cell changes, \<open>state\<close> and \<open>error\<close> included.
  The four functions are total, so none of them fails.
\<close>

theorem unmatched_edits_are_noops:
  "(index < 0 \<or> int (length (capturedImages s)) \<le> index \<longrightarrow> removeImage index s = s) \<and>
   (i \<notin> id_Ingredient ` set (ingredients s) \<longrightarrow>
      updateIngredientName i n s = s \<and> swapIngredient i n s = s \<and> removeIngredient i s = s)"
  by (auto simp add: removeImage_def filter_indexed_remove updateIngredientName_def
      swapIngredient_def removeIngredient_def map_rename_absent filter_absent)

theorem unmatched_edits_are_noops_witness:
  "int (length (capturedImages exampleEditing)) \<le> 1 \<and>
   ''9'' \<notin> id_Ingredient ` set (ingredients exampleEditing) \<and>
   removeImage 1 exampleEditing = exampleEditing \<and>
   removeImage (- 1) exampleEditing = exampleEditing \<and>
   updateIngredientName ''9'' ''Salt'' exampleEditing = exampleEditing \<and>
   swapIngredient ''9'' ''Salt'' exampleEditing = exampleEditing \<and>
   removeIngredient ''9'' exampleEditing = exampleEditing"
proof -
  have a: "int (length (capturedImages exampleEditing)) \<le> 1"
    and b: "''9'' \<notin> id_Ingredient ` set (ingredients exampleEditing)"
    by (simp_all add: exampleEditing_def exampleMilk_def exampleEggs_def)
  show ?thesis
    using a b unmatched_edits_are_noops [of 1 exampleEditing "''9''" "''Salt''"]
      unmatched_edits_are_noops [of "- 1" exampleEditing "''9''" "''Salt''"]
    by simp
qed

section \<open>Reset (C7)\<close>

text \<open>
  Claim C7. From every component state \<open>reset\<close> yields an empty capture list, no
  ingredients, no recipes and state \<open>IDLE\<close>.
\<close>

theorem reset_clears_everything:
  "capturedImages (reset s) = [] \<and> ingredients (reset s) = [] \<and>
   recipes (reset s) = [] \<and> state (reset s) = IDLE"
  by (simp add: reset_def)

end
